theory Spec2Isabelle
  imports Main
begin

section \<open>JavaScript values, collections and errors\<close>

text \<open>
  The managers are dynamically typed at their boundary: \<^verbatim>\<open>fetch\<close> probes its argument
  with \<^verbatim>\<open>typeof\<close>, \<^verbatim>\<open>in\<close>, \<^verbatim>\<open>Array.isArray\<close> and truthiness tests. The values it can
  receive are therefore modelled as a datatype of JavaScript values. Entities are records;
  an entity instance is a value of its own (\<^verbatim>\<open>instanceof\<close> is the constructor test).
\<close>

record user =
  uid :: string
  username :: string

text \<open>A raw space of a response: its id, and the rest of its fields as one opaque payload.\<close>

record raw_space =
  rid :: string
  rbody :: string

record space =
  sid :: string
  sdata :: raw_space
  sincludes :: "string option"

datatype jsval =
    JUndefined
  | JNull
  | JBool bool
  | JNum int
  | JStr string
  | JArr "jsval list"
  | JObj "(string \<times> jsval) list"
  | JSpace space
  | JUser user

fun typeof :: "jsval \<Rightarrow> string" where
  "typeof JUndefined = ''undefined''"
| "typeof JNull = ''object''"
| "typeof (JBool b) = ''boolean''"
| "typeof (JNum n) = ''number''"
| "typeof (JStr s) = ''string''"
| "typeof (JArr xs) = ''object''"
| "typeof (JObj fs) = ''object''"
| "typeof (JSpace s) = ''object''"
| "typeof (JUser u) = ''object''"

text \<open>Truthiness, as \<^verbatim>\<open>if (x)\<close> and \<^verbatim>\<open>!x\<close> read a value.\<close>

fun truthy :: "jsval \<Rightarrow> bool" where
  "truthy JUndefined = False"
| "truthy JNull = False"
| "truthy (JBool b) = b"
| "truthy (JNum n) = (n \<noteq> 0)"
| "truthy (JStr s) = (s \<noteq> [])"
| "truthy (JArr xs) = True"
| "truthy (JObj fs) = True"
| "truthy (JSpace s) = True"
| "truthy (JUser u) = True"

datatype error =
    INVALID_TYPE string string
  | INVALID_FETCH_OPTIONS
  | SPACE_RESOLVE_ID
  | USER_RESOLVE_ID
  | TypeError
  | RemoteApiError string

text \<open>
  The first four errors are the library's \<^verbatim>\<open>CustomTypeError\<close> with its message code;
  \<^verbatim>\<open>TypeError\<close> is the one the JavaScript runtime raises itself (a property read on
  \<^verbatim>\<open>null\<close>, a loop over \<^verbatim>\<open>undefined\<close>); \<^verbatim>\<open>RemoteApiError\<close> is whatever the transport
  rejects with. The spec's \<^verbatim>\<open>InvalidArgument\<close> is the bad option shape
  (\<^verbatim>\<open>INVALID_TYPE\<close>, \<^verbatim>\<open>INVALID_FETCH_OPTIONS\<close>), its \<^verbatim>\<open>ResolutionError\<close> the failed
  resolution (\<^verbatim>\<open>SPACE_RESOLVE_ID\<close>, \<^verbatim>\<open>USER_RESOLVE_ID\<close>).
\<close>

fun is_InvalidArgument :: "error \<Rightarrow> bool" where
  "is_InvalidArgument (INVALID_TYPE field expected) = True"
| "is_InvalidArgument INVALID_FETCH_OPTIONS = True"
| "is_InvalidArgument e = False"

text \<open>
  \<^verbatim>\<open>key in v\<close>: the runtime raises a TypeError when \<^verbatim>\<open>v\<close> is not an object (\<^verbatim>\<open>null\<close>
  included). Only the option keys are ever asked for; arrays and entity instances have
  none of them.
\<close>

fun in_op :: "string \<Rightarrow> jsval \<Rightarrow> error + bool" where
  "in_op k (JObj fs) = Inr (k \<in> fst ` set fs)"
| "in_op k (JArr xs) = Inr False"
| "in_op k (JSpace s) = Inr False"
| "in_op k (JUser u) = Inr False"
| "in_op k v = Inl TypeError"

text \<open>
  \<^verbatim>\<open>v.key\<close>: a TypeError on \<^verbatim>\<open>null\<close> and \<^verbatim>\<open>undefined\<close>, the field of an object, and
  \<^verbatim>\<open>undefined\<close> for a missing field and for every other value (only the option keys are
  ever read; primitives, arrays and entity instances have none of them).
\<close>

fun member_js :: "jsval \<Rightarrow> string \<Rightarrow> error + jsval" where
  "member_js JUndefined k = Inl TypeError"
| "member_js JNull k = Inl TypeError"
| "member_js (JObj fs) k = Inr (case map_of fs k of None \<Rightarrow> JUndefined | Some v \<Rightarrow> v)"
| "member_js v k = Inr JUndefined"

text \<open>
  A \<^verbatim>\<open>Collection\<close> is a JavaScript \<^verbatim>\<open>Map\<close>: keyed, and iterated in insertion order.
  \<^verbatim>\<open>set\<close> on a key already present replaces the value where it stands; \<^verbatim>\<open>find\<close>
  returns the first value, in insertion order, that satisfies the test.
\<close>

type_synonym 'v collection = "(string \<times> 'v) list"

definition coll_get :: "'v collection \<Rightarrow> string \<Rightarrow> 'v option" where
  "coll_get c k = map_of c k"

fun coll_set :: "string \<Rightarrow> 'v \<Rightarrow> 'v collection \<Rightarrow> 'v collection" where
  "coll_set k v [] = [(k, v)]"
| "coll_set k v ((k', v') # kvs) =
     (if k = k' then (k, v) # kvs else (k', v') # coll_set k v kvs)"

definition coll_find :: "('v \<Rightarrow> bool) \<Rightarrow> 'v collection \<Rightarrow> 'v option" where
  "coll_find p c = find p (map snd c)"

section \<open>The transport and the response envelope\<close>

text \<open>
  The response envelope \<^verbatim>\<open>{ data, includes?, meta?: { result_count } }\<close>. The schema
  package that types it is not part of the repository, so every field may be absent, as
  it can be on the wire. The includes payload is opaque.
\<close>

record meta =
  result_count :: int

record 'd response =
  r_data :: "'d option"
  r_includes :: "string option"
  r_meta :: "meta option"

text \<open>
  The transport is a collaborator: one function per endpoint the space manager calls,
  each answering with a response or rejecting. The manager's state is its cache and the
  log of the transport calls made so far. The query parameters of the client's options
  are constants of the client and are left out of the requests.
\<close>

datatype space_request =
    GetSpace string
  | GetSpaces "string list"
  | GetSpacesByCreatorIds "string list"

record space_api =
  spaces_id_get :: "string \<Rightarrow> error + raw_space response"
  spaces_get :: "string list \<Rightarrow> error + raw_space list response"
  spaces_by_creator_ids_get :: "string list \<Rightarrow> error + raw_space list response"

record manager =
  cache :: "space collection"
  calls :: "space_request list"

section \<open>BaseManager\<close>

text \<open>
  Modelled from the spec: \<^verbatim>\<open>BaseManager.resolveId\<close>, which is not among the source
  files. Section 4.1: an entity instance resolves to its id; a canonical id (format
  validated) resolves to itself; the base manager knows no secondary key, so anything
  else is \<^verbatim>\<open>null\<close> (\<open>None\<close>). The format test is the parameter \<open>canonical\<close>, the
  \<^verbatim>\<open>instanceof\<close> test with the instance's id the parameter \<open>inst_id\<close>.
\<close>

definition BaseManager_resolveId ::
  "(string \<Rightarrow> bool) \<Rightarrow> (jsval \<Rightarrow> string option) \<Rightarrow> jsval \<Rightarrow> string option" where
  "BaseManager_resolveId canonical inst_id r =
     (case inst_id r of
        Some i \<Rightarrow> Some i
      | None \<Rightarrow> (case r of JStr s \<Rightarrow> if canonical s then Some s else None | _ \<Rightarrow> None))"

text \<open>
  Modelled from the spec: \<^verbatim>\<open>BaseManager.resolve\<close>, which is not among the source files.
  Section 4.1: an instance is returned as it is; otherwise \<^verbatim>\<open>resolve\<close> is \<^verbatim>\<open>resolveId\<close>
  plus a cache lookup, and \<^verbatim>\<open>null\<close> when either fails.
\<close>

definition BaseManager_resolve ::
  "(string \<Rightarrow> bool) \<Rightarrow> (jsval \<Rightarrow> 'e option) \<Rightarrow> 'e collection \<Rightarrow> jsval \<Rightarrow> 'e option" where
  "BaseManager_resolve canonical inst c r =
     (case inst r of
        Some e \<Rightarrow> Some e
      | None \<Rightarrow>
          (case BaseManager_resolveId canonical (\<lambda>v. None) r of
             None \<Rightarrow> None
           | Some i \<Rightarrow> coll_get c i))"

text \<open>\<^verbatim>\<open>if (id)\<close> on the result of \<^verbatim>\<open>resolveId\<close>: \<^verbatim>\<open>null\<close> and the empty string are falsy.\<close>

fun truthy_id :: "string option \<Rightarrow> bool" where
  "truthy_id None = False"
| "truthy_id (Some s) = (s \<noteq> [])"

fun space_id_of :: "jsval \<Rightarrow> string option" where
  "space_id_of (JSpace s) = Some (sid s)"
| "space_id_of v = None"

fun user_id_of :: "jsval \<Rightarrow> string option" where
  "user_id_of (JUser u) = Some (uid u)"
| "user_id_of v = None"

text \<open>
  Modelled from the spec: the \<^verbatim>\<open>Space\<close> constructor and \<^verbatim>\<open>BaseManager._add\<close>, which are
  not among the source files. Section 4.2: the entity is constructed from the raw
  response together with its includes, and upserted into the cache unless
  \<^verbatim>\<open>cacheAfterFetching\<close> is false (default true, so \<^verbatim>\<open>undefined\<close> caches).
\<close>

definition new_Space :: "raw_space \<Rightarrow> string option \<Rightarrow> space" where
  "new_Space raw inc = \<lparr>sid = rid raw, sdata = raw, sincludes = inc\<rparr>"

definition add_entry ::
  "string \<Rightarrow> raw_space \<Rightarrow> string option \<Rightarrow> jsval \<Rightarrow> manager \<Rightarrow> space \<times> manager" where
  "add_entry i raw inc cacheAfterFetching m =
     (let entry = new_Space raw inc in
      (entry,
       if cacheAfterFetching = JUndefined \<or> truthy cacheAfterFetching
       then m\<lparr>cache := coll_set i entry (cache m)\<rparr> else m))"

section \<open>SpaceManager\<close>

datatype fetch_result =
    Single space
  | Multi "space collection"

text \<open>\<^verbatim>\<open>SpaceManager.#fetchSingleSpace\<close>.\<close>

definition fetchSingleSpace ::
  "space_api \<Rightarrow> manager \<Rightarrow> string \<Rightarrow> jsval \<Rightarrow> (error + space) \<times> manager" where
  "fetchSingleSpace api m spaceId options =
     (case member_js options ''skipCacheCheck'' of
        Inl e \<Rightarrow> (Inl e, m)
      | Inr skipCacheCheck \<Rightarrow>
          (case (if \<not> truthy skipCacheCheck then coll_get (cache m) spaceId else None) of
             Some cachedSpace \<Rightarrow> (Inr cachedSpace, m)
           | None \<Rightarrow>
               (let m1 = m\<lparr>calls := calls m @ [GetSpace spaceId]\<rparr> in
                case spaces_id_get api spaceId of
                  Inl e \<Rightarrow> (Inl e, m1)
                | Inr resp \<Rightarrow>
                    (case r_data resp of
                       None \<Rightarrow> (Inl TypeError, m1)
                     | Some raw \<Rightarrow>
                         (case member_js options ''cacheAfterFetching'' of
                            Inl e \<Rightarrow> (Inl e, m1)
                          | Inr caf \<Rightarrow>
                              (case add_entry (rid raw) raw (r_includes resp) caf m1 of
                                 (sp, m2) \<Rightarrow> (Inr sp, m2)))))))"

text \<open>
  The loop shared by \<^verbatim>\<open>#fetchMultipleSpaces\<close> and \<^verbatim>\<open>fetchByCreatorIds\<close>: every raw
  space is added (and cached, unless disabled) and set in the result collection.
\<close>

fun add_all ::
  "raw_space list \<Rightarrow> string option \<Rightarrow> jsval \<Rightarrow> space collection \<Rightarrow> manager
     \<Rightarrow> space collection \<times> manager" where
  "add_all [] inc caf coll m = (coll, m)"
| "add_all (raw # raws) inc caf coll m =
     (case add_entry (rid raw) raw inc caf m of
        (sp, m') \<Rightarrow> add_all raws inc caf (coll_set (sid sp) sp coll) m')"

text \<open>\<^verbatim>\<open>SpaceManager.#fetchMultipleSpaces\<close>: no look at \<^verbatim>\<open>meta\<close>, the data is iterated.\<close>

definition fetchMultipleSpaces ::
  "space_api \<Rightarrow> manager \<Rightarrow> string list \<Rightarrow> jsval \<Rightarrow> (error + space collection) \<times> manager" where
  "fetchMultipleSpaces api m spaceIds options =
     (let m1 = m\<lparr>calls := calls m @ [GetSpaces spaceIds]\<rparr> in
      case spaces_get api spaceIds of
        Inl e \<Rightarrow> (Inl e, m1)
      | Inr resp \<Rightarrow>
          (case r_data resp of
             None \<Rightarrow> (Inl TypeError, m1)
           | Some rawSpaces \<Rightarrow>
               (case member_js options ''cacheAfterFetching'' of
                  Inl e \<Rightarrow> (Inl e, m1)
                | Inr caf \<Rightarrow>
                    (case add_all rawSpaces (r_includes resp) caf [] m1 of
                       (coll, m2) \<Rightarrow> (Inr coll, m2)))))"

text \<open>
  \<^verbatim>\<open>array.map(x => { id = resolveId(x); if (!id) throw ...; return id })\<close>: the first
  element that does not resolve raises.
\<close>

fun resolve_each :: "(jsval \<Rightarrow> string option) \<Rightarrow> error \<Rightarrow> jsval list \<Rightarrow> error + string list" where
  "resolve_each rid_of err [] = Inr []"
| "resolve_each rid_of err (x # xs) =
     (case rid_of x of
        None \<Rightarrow> Inl err
      | Some i \<Rightarrow>
          if i = [] then Inl err
          else (case resolve_each rid_of err xs of
                  Inl e \<Rightarrow> Inl e
                | Inr ids \<Rightarrow> Inr (i # ids)))"

text \<open>\<^verbatim>\<open>SpaceManager.fetch\<close>.\<close>

definition SpaceManager_fetch ::
  "(string \<Rightarrow> bool) \<Rightarrow> space_api \<Rightarrow> manager \<Rightarrow> jsval \<Rightarrow> (error + fetch_result) \<times> manager" where
  "SpaceManager_fetch canonical api m options =
     (if typeof options \<noteq> ''object'' then (Inl (INVALID_TYPE ''options'' ''object''), m)
      else
        case in_op ''space'' options of
          Inl e \<Rightarrow> (Inl e, m)
        | Inr True \<Rightarrow>
            (case member_js options ''space'' of
               Inl e \<Rightarrow> (Inl e, m)
             | Inr sp \<Rightarrow>
                 (case BaseManager_resolveId canonical space_id_of sp of
                    None \<Rightarrow> (Inl SPACE_RESOLVE_ID, m)
                  | Some spaceId \<Rightarrow>
                      if spaceId = [] then (Inl SPACE_RESOLVE_ID, m)
                      else
                        (case fetchSingleSpace api m spaceId options of
                           (Inl e, m') \<Rightarrow> (Inl e, m')
                         | (Inr s, m') \<Rightarrow> (Inr (Single s), m'))))
        | Inr False \<Rightarrow>
            (case in_op ''spaces'' options of
               Inl e \<Rightarrow> (Inl e, m)
             | Inr True \<Rightarrow>
                 (case member_js options ''spaces'' of
                    Inl e \<Rightarrow> (Inl e, m)
                  | Inr (JArr spaces) \<Rightarrow>
                      (case resolve_each (BaseManager_resolveId canonical space_id_of)
                              SPACE_RESOLVE_ID spaces of
                         Inl e \<Rightarrow> (Inl e, m)
                       | Inr spaceIds \<Rightarrow>
                           (case fetchMultipleSpaces api m spaceIds options of
                              (Inl e, m') \<Rightarrow> (Inl e, m')
                            | (Inr c, m') \<Rightarrow> (Inr (Multi c), m')))
                  | Inr other \<Rightarrow> (Inl (INVALID_TYPE ''spaces'' ''array''), m))
             | Inr False \<Rightarrow> (Inl INVALID_FETCH_OPTIONS, m)))"

text \<open>
  \<^verbatim>\<open>SpaceManager.fetchByCreatorIds\<close>. The creators are resolved by the user manager of
  the client, whose \<^verbatim>\<open>resolveId\<close> is the base manager's.
\<close>

definition fetchByCreatorIds ::
  "(string \<Rightarrow> bool) \<Rightarrow> space_api \<Rightarrow> manager \<Rightarrow> jsval \<Rightarrow> (error + space collection) \<times> manager" where
  "fetchByCreatorIds canonical api m options =
     (if typeof options \<noteq> ''object'' then (Inl (INVALID_TYPE ''options'' ''object''), m)
      else
        case member_js options ''users'' of
          Inl e \<Rightarrow> (Inl e, m)
        | Inr (JArr users) \<Rightarrow>
            (case resolve_each (BaseManager_resolveId canonical user_id_of)
                    USER_RESOLVE_ID users of
               Inl e \<Rightarrow> (Inl e, m)
             | Inr userIds \<Rightarrow>
                 (let m1 = m\<lparr>calls := calls m @ [GetSpacesByCreatorIds userIds]\<rparr> in
                  case spaces_by_creator_ids_get api userIds of
                    Inl e \<Rightarrow> (Inl e, m1)
                  | Inr resp \<Rightarrow>
                      (case r_meta resp of
                         None \<Rightarrow> (Inl TypeError, m1)
                       | Some mt \<Rightarrow>
                           if result_count mt = 0 then (Inr [], m1)
                           else
                             (case r_data resp of
                                None \<Rightarrow> (Inl TypeError, m1)
                              | Some rawSpaces \<Rightarrow>
                                  (case member_js options ''cacheAfterFetching'' of
                                     Inl e \<Rightarrow> (Inl e, m1)
                                   | Inr caf \<Rightarrow>
                                       (case add_all rawSpaces (r_includes resp) caf [] m1 of
                                          (coll, m2) \<Rightarrow> (Inr coll, m2)))))))
        | Inr other \<Rightarrow> (Inl (INVALID_TYPE ''users'' ''array''), m))"

section \<open>UserManager\<close>

text \<open>
  The user manager's transport: the four methods of \<^verbatim>\<open>client.rest\<close> it calls. The
  query is whatever value the manager passes, so it is a JavaScript value.
\<close>

record raw_user =
  ruid :: string
  rusername :: string

datatype user_request =
    FetchUserById jsval
  | FetchUserByUsername jsval
  | FetchUsersByIds "jsval list"
  | FetchUsersByUsernames "jsval list"

record user_rest =
  rest_fetchUserById :: "jsval \<Rightarrow> error + raw_user response"
  rest_fetchUserByUsername :: "jsval \<Rightarrow> error + raw_user response"
  rest_fetchUsersByIds :: "jsval list \<Rightarrow> error + raw_user list response"
  rest_fetchUsersByUsernames :: "jsval list \<Rightarrow> error + raw_user list response"

record user_manager =
  ucache :: "user collection"
  ucalls :: "user_request list"

text \<open>The two constants of \<^verbatim>\<open>queryTypes\<close>.\<close>

datatype queryType = ID | USERNAME

fun user_of :: "jsval \<Rightarrow> user option" where
  "user_of (JUser u) = Some u"
| "user_of v = None"

text \<open>
  \<^verbatim>\<open>UserManager.resolveID\<close>, a method of the manager \<open>this\<close>, of which it reads the
  cache. The result is a JavaScript value: the id, \<^verbatim>\<open>undefined\<close>
  when the username scan finds nothing (\<^verbatim>\<open>find(...)?.id\<close>), \<^verbatim>\<open>null\<close> for a value that is
  not a string.
\<close>

definition UserManager_resolveID :: "(string \<Rightarrow> bool) \<Rightarrow> user_manager \<Rightarrow> jsval \<Rightarrow> jsval" where
  "UserManager_resolveID canonical this userResolvable =
     (let byUsername =
        (if typeof userResolvable = ''string''
         then (case coll_find (\<lambda>u. JStr (username u) = userResolvable) (ucache this) of
                 None \<Rightarrow> JUndefined
               | Some u \<Rightarrow> JStr (uid u))
         else JNull)
      in case BaseManager_resolveId canonical user_id_of userResolvable of
           None \<Rightarrow> byUsername
         | Some userID \<Rightarrow> if userID = [] then byUsername else JStr userID)"

text \<open>\<^verbatim>\<open>UserManager.resolve\<close>: the user, \<^verbatim>\<open>undefined\<close> or \<^verbatim>\<open>null\<close>.\<close>

definition UserManager_resolve :: "(string \<Rightarrow> bool) \<Rightarrow> user_manager \<Rightarrow> jsval \<Rightarrow> jsval" where
  "UserManager_resolve canonical this userResolvable =
     (let byUsername =
        (if typeof userResolvable = ''string''
         then (case coll_find (\<lambda>u. JStr (username u) = userResolvable) (ucache this) of
                 None \<Rightarrow> JUndefined
               | Some u \<Rightarrow> JUser u)
         else JNull)
      in case BaseManager_resolve canonical user_of (ucache this) userResolvable of
           Some u \<Rightarrow> JUser u
         | None \<Rightarrow>
             (case BaseManager_resolveId canonical user_id_of userResolvable of
                None \<Rightarrow> byUsername
              | Some userID \<Rightarrow>
                  if userID = [] then byUsername
                  else (case BaseManager_resolve canonical user_of (ucache this) (JStr userID) of
                          None \<Rightarrow> JNull
                        | Some u \<Rightarrow> JUser u)))"

text \<open>\<^verbatim>\<open>UserManager._fetchSingle\<close> and \<^verbatim>\<open>UserManager._fetchMany\<close>.\<close>

definition fetchSingle ::
  "user_rest \<Rightarrow> user_manager \<Rightarrow> jsval \<Rightarrow> queryType
     \<Rightarrow> (error + raw_user response) \<times> user_manager" where
  "fetchSingle rest m query qt =
     (case qt of
        ID \<Rightarrow> (rest_fetchUserById rest query, m\<lparr>ucalls := ucalls m @ [FetchUserById query]\<rparr>)
      | USERNAME \<Rightarrow>
          (rest_fetchUserByUsername rest query,
           m\<lparr>ucalls := ucalls m @ [FetchUserByUsername query]\<rparr>))"

definition fetchMany ::
  "user_rest \<Rightarrow> user_manager \<Rightarrow> jsval list \<Rightarrow> queryType
     \<Rightarrow> (error + raw_user list response) \<times> user_manager" where
  "fetchMany rest m query qt =
     (case qt of
        ID \<Rightarrow> (rest_fetchUsersByIds rest query, m\<lparr>ucalls := ucalls m @ [FetchUsersByIds query]\<rparr>)
      | USERNAME \<Rightarrow>
          (rest_fetchUsersByUsernames rest query,
           m\<lparr>ucalls := ucalls m @ [FetchUsersByUsernames query]\<rparr>))"

datatype user_result =
    RUndefined
  | RNull
  | RUser user
  | RUsers "user collection"

text \<open>
  Modelled from the spec: \<^verbatim>\<open>userBuilder\<close> and \<^verbatim>\<open>cleanFetchManyUsersResponse\<close> of the
  utilities, which are not among the source files. Section 4.2: the entity is constructed
  from the raw response, and a response without data gives \<^verbatim>\<open>null\<close>; the responses of
  the buckets are merged into one collection keyed by id, each bucket in its response
  order.
\<close>

definition new_User :: "raw_user \<Rightarrow> user" where
  "new_User raw = \<lparr>uid = ruid raw, username = rusername raw\<rparr>"

definition userBuilder_single :: "raw_user response \<Rightarrow> user_result" where
  "userBuilder_single userData =
     (case r_data userData of None \<Rightarrow> RNull | Some raw \<Rightarrow> RUser (new_User raw))"

definition cleanFetchManyUsersResponse :: "raw_user list response list \<Rightarrow> raw_user list" where
  "cleanFetchManyUsersResponse usersResponse =
     concat (map (\<lambda>r. case r_data r of None \<Rightarrow> [] | Some raws \<Rightarrow> raws) usersResponse)"

definition userBuilder_many :: "raw_user list \<Rightarrow> user_result" where
  "userBuilder_many userData =
     RUsers (foldl (\<lambda>coll raw. coll_set (ruid raw) (new_User raw) coll) [] userData)"

text \<open>
  The \<^verbatim>\<open>forEach\<close> of \<^verbatim>\<open>UserManager.fetch\<close> that fills \<^verbatim>\<open>userIdsArray\<close> and
  \<^verbatim>\<open>userNamesArray\<close>; \<open>res\<close> is \<^verbatim>\<open>this.resolveID\<close>.
\<close>

fun fill_buckets ::
  "(jsval \<Rightarrow> jsval) \<Rightarrow> jsval list \<Rightarrow> jsval list \<Rightarrow> jsval list \<Rightarrow> jsval list \<times> jsval list" where
  "fill_buckets res [] userIdsArray userNamesArray = (userIdsArray, userNamesArray)"
| "fill_buckets res (userResolvable # rest) userIdsArray userNamesArray =
     (let userID = res userResolvable in
      if truthy userID then fill_buckets res rest (userIdsArray @ [userID]) userNamesArray
      else if typeof userResolvable = ''string''
      then fill_buckets res rest userIdsArray (userNamesArray @ [userResolvable])
      else fill_buckets res rest userIdsArray userNamesArray)"

text \<open>The two conditional batched calls that fill \<^verbatim>\<open>usersResponse\<close>.\<close>

definition fetch_buckets ::
  "user_rest \<Rightarrow> user_manager \<Rightarrow> jsval list \<Rightarrow> jsval list
     \<Rightarrow> (error + raw_user list response list) \<times> user_manager" where
  "fetch_buckets rest m userIdsArray userNamesArray =
     (case (if userIdsArray \<noteq> []
            then (case fetchMany rest m userIdsArray ID of
                    (Inl e, m1) \<Rightarrow> (Inl e, m1)
                  | (Inr r, m1) \<Rightarrow> (Inr [r], m1))
            else (Inr [], m)) of
        (Inl e, m1) \<Rightarrow> (Inl e, m1)
      | (Inr usersResponse, m1) \<Rightarrow>
          if userNamesArray \<noteq> []
          then (case fetchMany rest m1 userNamesArray USERNAME of
                  (Inl e, m2) \<Rightarrow> (Inl e, m2)
                | (Inr r, m2) \<Rightarrow> (Inr (usersResponse @ [r]), m2))
          else (Inr usersResponse, m1))"

text \<open>One single fetch followed by \<^verbatim>\<open>userBuilder\<close>, as each single branch does.\<close>

definition fetch_one ::
  "user_rest \<Rightarrow> user_manager \<Rightarrow> jsval \<Rightarrow> queryType \<Rightarrow> (error + user_result) \<times> user_manager" where
  "fetch_one rest m query qt =
     (case fetchSingle rest m query qt of
        (Inl e, m') \<Rightarrow> (Inl e, m')
      | (Inr userData, m') \<Rightarrow> (Inr (userBuilder_single userData), m'))"

text \<open>
  \<^verbatim>\<open>UserManager.fetch\<close>. A call that matches no branch returns \<^verbatim>\<open>undefined\<close>. In the
  branch of an options object with a single user the id endpoint is given
  \<^verbatim>\<open>options.user\<close>, as the source has it.
\<close>

definition UserManager_fetch ::
  "(string \<Rightarrow> bool) \<Rightarrow> user_rest \<Rightarrow> user_manager \<Rightarrow> jsval
     \<Rightarrow> (error + user_result) \<times> user_manager" where
  "UserManager_fetch canonical rest m options =
     (let userID = UserManager_resolveID canonical m options in
      if truthy userID then fetch_one rest m userID ID
      else if typeof options = ''string'' then fetch_one rest m options USERNAME
      else
        case member_js options ''user'' of
          Inl e \<Rightarrow> (Inl e, m)
        | Inr optUser \<Rightarrow>
            if truthy optUser then
              (case optUser of
                 JArr users \<Rightarrow>
                   (case fill_buckets (UserManager_resolveID canonical m) users [] [] of
                      (userIdsArray, userNamesArray) \<Rightarrow>
                        (case fetch_buckets rest m userIdsArray userNamesArray of
                           (Inl e, m') \<Rightarrow> (Inl e, m')
                         | (Inr usersResponse, m') \<Rightarrow>
                             (Inr (userBuilder_many (cleanFetchManyUsersResponse usersResponse)),
                              m')))
               | other \<Rightarrow>
                   (let userID2 = UserManager_resolveID canonical m optUser in
                    if truthy userID2 then fetch_one rest m optUser ID
                    else if typeof optUser = ''string'' then fetch_one rest m optUser USERNAME
                    else (Inr RUndefined, m)))
            else (Inr RUndefined, m))"

text \<open>
  Modelled from the spec: the format test of a canonical id, which section 4.1 gives as
  "e.g. numeric string". It instantiates \<open>canonical\<close> at the concrete inputs below.
\<close>

definition numeric :: "string \<Rightarrow> bool" where
  "numeric s = (s \<noteq> [] \<and> list_all (\<lambda>c. c \<in> set ''0123456789'') s)"

text \<open>\<^verbatim>\<open>Array.isArray\<close>, the test the \<open>JArr\<close> patterns above stand for.\<close>

fun isArray :: "jsval \<Rightarrow> bool" where
  "isArray (JArr xs) = True"
| "isArray v = False"

text \<open>
  A call is rejected before the transport when it ends in an error of the given class
  and leaves the manager as it was: no call logged, the cache untouched.
\<close>

definition rejected_with ::
  "(error \<Rightarrow> bool) \<Rightarrow> (error + 'a) \<times> manager \<Rightarrow> manager \<Rightarrow> bool" where
  "rejected_with cls res m = (case res of (Inl e, m') \<Rightarrow> cls e \<and> m' = m | (Inr v, m') \<Rightarrow> False)"

section \<open>Concrete inputs\<close>

definition space1 :: space where
  "space1 = new_Space \<lparr>rid = ''1'', rbody = ''cached''\<rparr> None"

definition manager1 :: manager where
  "manager1 = \<lparr>cache = [(''1'', space1)], calls = []\<rparr>"

text \<open>A transport that answers every request with fresh data and no meta.\<close>

definition api1 :: space_api where
  "api1 =
     \<lparr>spaces_id_get =
        (\<lambda>i. Inr \<lparr>r_data = Some \<lparr>rid = i, rbody = ''fresh''\<rparr>, r_includes = None,
                  r_meta = None\<rparr>),
      spaces_get =
        (\<lambda>ids. Inr \<lparr>r_data = Some (map (\<lambda>i. \<lparr>rid = i, rbody = ''fresh''\<rparr>) ids),
                    r_includes = None, r_meta = None\<rparr>),
      spaces_by_creator_ids_get =
        (\<lambda>ids. Inr \<lparr>r_data = Some (map (\<lambda>i. \<lparr>rid = i, rbody = ''fresh''\<rparr>) ids),
                    r_includes = None, r_meta = Some \<lparr>result_count = int (length ids)\<rparr>\<rparr>)\<rparr>"

text \<open>A transport whose every answer signals zero results and carries no data.\<close>

definition api_zero :: space_api where
  "api_zero =
     \<lparr>spaces_id_get =
        (\<lambda>i. Inr \<lparr>r_data = None, r_includes = None, r_meta = Some \<lparr>result_count = 0\<rparr>\<rparr>),
      spaces_get =
        (\<lambda>ids. Inr \<lparr>r_data = None, r_includes = None, r_meta = Some \<lparr>result_count = 0\<rparr>\<rparr>),
      spaces_by_creator_ids_get =
        (\<lambda>ids. Inr \<lparr>r_data = None, r_includes = None, r_meta = Some \<lparr>result_count = 0\<rparr>\<rparr>)\<rparr>"

text \<open>
  A transport that signals zero results and still sends one raw space as data.
\<close>

definition api_zero_data :: space_api where
  "api_zero_data =
     \<lparr>spaces_id_get =
        (\<lambda>i. Inr \<lparr>r_data = Some \<lparr>rid = i, rbody = ''stale''\<rparr>, r_includes = None,
                  r_meta = Some \<lparr>result_count = 0\<rparr>\<rparr>),
      spaces_get =
        (\<lambda>ids. Inr \<lparr>r_data = Some [\<lparr>rid = ''9'', rbody = ''stale''\<rparr>], r_includes = None,
                    r_meta = Some \<lparr>result_count = 0\<rparr>\<rparr>),
      spaces_by_creator_ids_get =
        (\<lambda>ids. Inr \<lparr>r_data = Some [\<lparr>rid = ''9'', rbody = ''stale''\<rparr>], r_includes = None,
                    r_meta = Some \<lparr>result_count = 0\<rparr>\<rparr>)\<rparr>"

definition alice :: user where
  "alice = \<lparr>uid = ''12'', username = ''alice''\<rparr>"

definition bob :: user where
  "bob = \<lparr>uid = ''34'', username = ''bob''\<rparr>"

definition umanager1 :: user_manager where
  "umanager1 = \<lparr>ucache = [(''12'', alice), (''34'', bob)], ucalls = []\<rparr>"

text \<open>A user transport that answers every request without data.\<close>

definition rest1 :: user_rest where
  "rest1 =
     \<lparr>rest_fetchUserById = (\<lambda>q. Inr \<lparr>r_data = None, r_includes = None, r_meta = None\<rparr>),
      rest_fetchUserByUsername = (\<lambda>q. Inr \<lparr>r_data = None, r_includes = None, r_meta = None\<rparr>),
      rest_fetchUsersByIds = (\<lambda>q. Inr \<lparr>r_data = None, r_includes = None, r_meta = None\<rparr>),
      rest_fetchUsersByUsernames =
        (\<lambda>q. Inr \<lparr>r_data = None, r_includes = None, r_meta = None\<rparr>)\<rparr>"

text \<open>
  A user transport that answers a string query with a raw user of that id and name, and
  any other query with none.
\<close>

fun echo_user :: "jsval \<Rightarrow> raw_user list" where
  "echo_user (JStr s) = [\<lparr>ruid = s, rusername = s\<rparr>]"
| "echo_user v = []"

definition rest_echo :: user_rest where
  "rest_echo =
     \<lparr>rest_fetchUserById =
        (\<lambda>q. Inr \<lparr>r_data = (case echo_user q of [] \<Rightarrow> None | raw # raws \<Rightarrow> Some raw),
                  r_includes = None, r_meta = None\<rparr>),
      rest_fetchUserByUsername =
        (\<lambda>q. Inr \<lparr>r_data = (case echo_user q of [] \<Rightarrow> None | raw # raws \<Rightarrow> Some raw),
                  r_includes = None, r_meta = None\<rparr>),
      rest_fetchUsersByIds =
        (\<lambda>q. Inr \<lparr>r_data = Some (concat (map echo_user q)), r_includes = None, r_meta = None\<rparr>),
      rest_fetchUsersByUsernames =
        (\<lambda>q. Inr \<lparr>r_data = Some (concat (map echo_user q)), r_includes = None, r_meta = None\<rparr>)\<rparr>"

text \<open>
  A second user who holds the username of alice (a username is not unique over time: a
  cached user may have been renamed since), and the two caches that hold both users, in
  either insertion order; and the cache of \<open>umanager1\<close> in the other insertion order.
\<close>

definition namesake :: user where
  "namesake = \<lparr>uid = ''56'', username = ''alice''\<rparr>"

definition umanager_old :: user_manager where
  "umanager_old = \<lparr>ucache = [(''12'', alice), (''56'', namesake)], ucalls = []\<rparr>"

definition umanager_new :: user_manager where
  "umanager_new = \<lparr>ucache = [(''56'', namesake), (''12'', alice)], ucalls = []\<rparr>"

definition umanager_rev :: user_manager where
  "umanager_rev = \<lparr>ucache = [(''34'', bob), (''12'', alice)], ucalls = []\<rparr>"

section \<open>Properties of the space manager\<close>

lemma calls_add_entry: "calls (snd (add_entry i raw inc caf m)) = calls m"
  by (simp add: add_entry_def Let_def)

lemma fetchSingleSpace_cached:
  assumes "member_js options ''skipCacheCheck'' = Inr skip" and "\<not> truthy skip"
    and "coll_get (cache m) spaceId = Some sp"
  shows "fetchSingleSpace api m spaceId options = (Inr sp, m)"
  using assms by (simp add: fetchSingleSpace_def)

lemma fetchSingleSpace_skip_calls:
  assumes "member_js options ''skipCacheCheck'' = Inr skip" and "truthy skip"
  shows "calls (snd (fetchSingleSpace api m spaceId options)) = calls m @ [GetSpace spaceId]"
  using assms calls_add_entry
  by (auto simp: fetchSingleSpace_def Let_def split: sum.splits option.splits prod.splits
      dest: arg_cong[where f="\<lambda>p. calls (snd p)"])

lemma fetch_single_path:
  assumes "typeof options = ''object''" and "in_op ''space'' options = Inr True"
    and "member_js options ''space'' = Inr r"
    and "BaseManager_resolveId canonical space_id_of r = Some spaceId" and "spaceId \<noteq> []"
  shows "SpaceManager_fetch canonical api m options =
           (case fetchSingleSpace api m spaceId options of
              (Inl e, m') \<Rightarrow> (Inl e, m')
            | (Inr s, m') \<Rightarrow> (Inr (Single s), m'))"
  using assms by (simp add: SpaceManager_fetch_def)

text \<open>
  C1. A single fetch of a space, \<^verbatim>\<open>SpaceManager.fetch\<close> with a \<^verbatim>\<open>space\<close> field that
  resolves to the id \<open>spaceId\<close>, and \<^verbatim>\<open>#fetchSingleSpace\<close> below it. When
  \<^verbatim>\<open>skipCacheCheck\<close> is falsy (false, or absent: the default) and the cache holds
  \<open>spaceId\<close>, the cached space is returned and the manager is left as it was: no
  transport call, no change of the cache. When \<^verbatim>\<open>skipCacheCheck\<close> is truthy, exactly one
  transport call is made, the single-space endpoint with \<open>spaceId\<close>, whatever the cache
  holds and whatever the transport answers.
\<close>

theorem single_fetch_cache_check:
  assumes "typeof options = ''object''" and "in_op ''space'' options = Inr True"
    and "member_js options ''space'' = Inr r"
    and "BaseManager_resolveId canonical space_id_of r = Some spaceId" and "spaceId \<noteq> []"
    and "member_js options ''skipCacheCheck'' = Inr skip"
  shows "(\<not> truthy skip \<and> coll_get (cache m) spaceId = Some sp \<longrightarrow>
            fetchSingleSpace api m spaceId options = (Inr sp, m) \<and>
            SpaceManager_fetch canonical api m options = (Inr (Single sp), m))
       \<and> (truthy skip \<longrightarrow>
            calls (snd (fetchSingleSpace api m spaceId options)) = calls m @ [GetSpace spaceId] \<and>
            calls (snd (SpaceManager_fetch canonical api m options)) =
              calls m @ [GetSpace spaceId])"
proof (intro conjI impI)
  assume h: "\<not> truthy skip \<and> coll_get (cache m) spaceId = Some sp"
  show c: "fetchSingleSpace api m spaceId options = (Inr sp, m)"
    using assms(6) h by (simp add: fetchSingleSpace_cached)
  show "SpaceManager_fetch canonical api m options = (Inr (Single sp), m)"
    using fetch_single_path[OF assms(1-5)] c by simp
next
  assume h: "truthy skip"
  show c: "calls (snd (fetchSingleSpace api m spaceId options)) = calls m @ [GetSpace spaceId]"
    using fetchSingleSpace_skip_calls[OF assms(6) h] .
  show "calls (snd (SpaceManager_fetch canonical api m options)) = calls m @ [GetSpace spaceId]"
    using fetch_single_path[OF assms(1-5), of api m] c
    by (auto split: prod.splits sum.splits)
qed

theorem single_fetch_cache_check_witness:
  "SpaceManager_fetch numeric api1 manager1 (JObj [(''space'', JStr ''1'')])
     = (Inr (Single space1), manager1)
   \<and> calls (snd (SpaceManager_fetch numeric api1 manager1
        (JObj [(''space'', JStr ''1''), (''skipCacheCheck'', JBool True)]))) = [GetSpace ''1'']"
proof -
  have r: "BaseManager_resolveId numeric space_id_of (JStr ''1'') = Some ''1''"
    by (simp add: BaseManager_resolveId_def numeric_def)
  have a: "SpaceManager_fetch numeric api1 manager1 (JObj [(''space'', JStr ''1'')])
             = (Inr (Single space1), manager1)"
    using single_fetch_cache_check
      [of "JObj [(''space'', JStr ''1'')]" "JStr ''1''" numeric "''1''" JUndefined
          manager1 space1 api1, OF _ _ _ r]
    by (simp add: manager1_def coll_get_def)
  have b: "calls (snd (SpaceManager_fetch numeric api1 manager1
             (JObj [(''space'', JStr ''1''), (''skipCacheCheck'', JBool True)]))) = [GetSpace ''1'']"
    using single_fetch_cache_check
      [of "JObj [(''space'', JStr ''1''), (''skipCacheCheck'', JBool True)]" "JStr ''1''"
          numeric "''1''" "JBool True" manager1 space1 api1, OF _ _ _ r]
    by (simp add: manager1_def)
  show ?thesis using a b by simp
qed

lemma in_op_object: "in_op k options = Inr b \<Longrightarrow> typeof options = ''object''"
  by (cases options) auto


lemma resolve_each_resolved:
  "\<forall>x\<in>set xs. truthy_id (f x) \<Longrightarrow> resolve_each f err xs = Inr (map (\<lambda>x. the (f x)) xs)"
proof (induction xs)
  case Nil
  then show ?case by simp
next
  case (Cons x xs)
  then obtain i where i: "f x = Some i" "i \<noteq> []" by (cases "f x") auto
  with Cons show ?case by simp
qed

text \<open>
  C3, as the claim states it, fails. An options object with a \<^verbatim>\<open>space\<close> field and a
  \<^verbatim>\<open>spaces\<close> field that is not an array has its list field present and not an array,
  yet no error is raised: the single-fetch path is taken, the cached space is returned
  or the transport is called. And \<^verbatim>\<open>null\<close> is not an object, yet it passes the
  \<^verbatim>\<open>typeof\<close> test, and what is raised is the runtime's own TypeError, which is not an
  \<^verbatim>\<open>InvalidArgument\<close>.
\<close>

theorem invalid_options_counterexample:
  "typeof (JObj [(''space'', JStr ''1''), (''spaces'', JNum 5)]) = ''object''
   \<and> member_js (JObj [(''space'', JStr ''1''), (''spaces'', JNum 5)]) ''spaces'' = Inr (JNum 5)
   \<and> \<not> isArray (JNum 5)
   \<and> SpaceManager_fetch numeric api1 manager1 (JObj [(''space'', JStr ''1''), (''spaces'', JNum 5)])
       = (Inr (Single space1), manager1)
   \<and> calls (snd (SpaceManager_fetch numeric api1 manager1
        (JObj [(''space'', JStr ''2''), (''spaces'', JNum 5)]))) = [GetSpace ''2'']
   \<and> SpaceManager_fetch numeric api1 manager1 JNull = (Inl TypeError, manager1)
   \<and> fetchByCreatorIds numeric api1 manager1 JNull = (Inl TypeError, manager1)
   \<and> \<not> is_InvalidArgument TypeError"
  by (simp add: SpaceManager_fetch_def fetchByCreatorIds_def fetchSingleSpace_def
      BaseManager_resolveId_def numeric_def manager1_def api1_def coll_get_def add_entry_def
      Let_def)

text \<open>
  C3, amended. Options are rejected with an \<^verbatim>\<open>InvalidArgument\<close> error
  (\<^verbatim>\<open>INVALID_TYPE\<close> or \<^verbatim>\<open>INVALID_FETCH_OPTIONS\<close>) before any transport call, the manager
  left as it was, in these cases. For \<^verbatim>\<open>fetch\<close>: options that fail the test
  \<^verbatim>\<open>typeof options === 'object'\<close>; options without a \<^verbatim>\<open>space\<close> field whose \<^verbatim>\<open>spaces\<close>
  field is not an array (a \<^verbatim>\<open>space\<close> field takes precedence, and the list field is then
  not validated); options with neither field. For \<^verbatim>\<open>fetchByCreatorIds\<close>: options that
  fail the \<^verbatim>\<open>typeof\<close> test; an object whose \<^verbatim>\<open>users\<close> field is not an array (an absent one
  reads as \<^verbatim>\<open>undefined\<close>).
\<close>

theorem invalid_options_rejected:
  "(typeof options \<noteq> ''object'' \<longrightarrow>
      rejected_with is_InvalidArgument (SpaceManager_fetch canonical api m options) m \<and>
      rejected_with is_InvalidArgument (fetchByCreatorIds canonical api m options) m)
   \<and> (in_op ''space'' options = Inr False \<and> in_op ''spaces'' options = Inr True \<and>
       member_js options ''spaces'' = Inr v \<and> \<not> isArray v \<longrightarrow>
      rejected_with is_InvalidArgument (SpaceManager_fetch canonical api m options) m)
   \<and> (in_op ''space'' options = Inr False \<and> in_op ''spaces'' options = Inr False \<longrightarrow>
      rejected_with is_InvalidArgument (SpaceManager_fetch canonical api m options) m)
   \<and> (typeof options = ''object'' \<and> member_js options ''users'' = Inr v \<and> \<not> isArray v \<longrightarrow>
      rejected_with is_InvalidArgument (fetchByCreatorIds canonical api m options) m)"
proof (intro conjI impI)
  assume "typeof options \<noteq> ''object''"
  then show "rejected_with is_InvalidArgument (SpaceManager_fetch canonical api m options) m"
    and "rejected_with is_InvalidArgument (fetchByCreatorIds canonical api m options) m"
    by (simp_all add: rejected_with_def SpaceManager_fetch_def fetchByCreatorIds_def)
next
  assume h: "in_op ''space'' options = Inr False \<and> in_op ''spaces'' options = Inr True \<and>
       member_js options ''spaces'' = Inr v \<and> \<not> isArray v"
  then have "typeof options = ''object''" by (auto dest: in_op_object)
  with h show "rejected_with is_InvalidArgument (SpaceManager_fetch canonical api m options) m"
    by (cases v) (simp_all add: rejected_with_def SpaceManager_fetch_def)
next
  assume h: "in_op ''space'' options = Inr False \<and> in_op ''spaces'' options = Inr False"
  then have "typeof options = ''object''" by (auto dest: in_op_object)
  with h show "rejected_with is_InvalidArgument (SpaceManager_fetch canonical api m options) m"
    by (simp add: rejected_with_def SpaceManager_fetch_def)
next
  assume h: "typeof options = ''object'' \<and> member_js options ''users'' = Inr v \<and> \<not> isArray v"
  then show "rejected_with is_InvalidArgument (fetchByCreatorIds canonical api m options) m"
    by (cases v) (simp_all add: rejected_with_def fetchByCreatorIds_def)
qed

theorem invalid_options_rejected_witness:
  "rejected_with is_InvalidArgument (SpaceManager_fetch numeric api1 manager1 (JNum 5)) manager1
   \<and> rejected_with is_InvalidArgument (fetchByCreatorIds numeric api1 manager1 (JStr ''12'')) manager1
   \<and> rejected_with is_InvalidArgument
        (SpaceManager_fetch numeric api1 manager1 (JObj [(''spaces'', JStr ''1'')])) manager1
   \<and> rejected_with is_InvalidArgument
        (SpaceManager_fetch numeric api1 manager1 (JObj [(''skipCacheCheck'', JBool True)])) manager1
   \<and> rejected_with is_InvalidArgument
        (fetchByCreatorIds numeric api1 manager1 (JObj [(''users'', JStr ''12'')])) manager1"
proof -
  have a: "rejected_with is_InvalidArgument (SpaceManager_fetch numeric api1 manager1 (JNum 5)) manager1"
    using invalid_options_rejected[of "JNum 5" numeric api1 manager1] by simp
  have b: "rejected_with is_InvalidArgument (fetchByCreatorIds numeric api1 manager1 (JStr ''12'')) manager1"
    using invalid_options_rejected[of "JStr ''12''" numeric api1 manager1] by simp
  have c: "rejected_with is_InvalidArgument
        (SpaceManager_fetch numeric api1 manager1 (JObj [(''spaces'', JStr ''1'')])) manager1"
    using invalid_options_rejected[of "JObj [(''spaces'', JStr ''1'')]" numeric api1 manager1 "JStr ''1''"]
    by simp
  have d: "rejected_with is_InvalidArgument
        (SpaceManager_fetch numeric api1 manager1 (JObj [(''skipCacheCheck'', JBool True)])) manager1"
    using invalid_options_rejected[of "JObj [(''skipCacheCheck'', JBool True)]" numeric api1 manager1]
    by simp
  have e: "rejected_with is_InvalidArgument
        (fetchByCreatorIds numeric api1 manager1 (JObj [(''users'', JStr ''12'')])) manager1"
    using invalid_options_rejected[of "JObj [(''users'', JStr ''12'')]" numeric api1 manager1 "JStr ''12''"]
    by simp
  show ?thesis using a b c d e by simp
qed

text \<open>
  \<^verbatim>\<open>null\<close> passes the \<^verbatim>\<open>typeof\<close> test; the \<^verbatim>\<open>in\<close> operator and the property read then
  raise the runtime's own TypeError, still before any transport call.
\<close>

lemma null_options_raise:
  "SpaceManager_fetch canonical api m JNull = (Inl TypeError, m)"
  "fetchByCreatorIds canonical api m JNull = (Inl TypeError, m)"
  by (simp_all add: SpaceManager_fetch_def fetchByCreatorIds_def)



lemma map_of_coll_set: "map_of (coll_set k v fs) k' = (if k' = k then Some v else map_of fs k')"
  by (induction fs) auto

lemma keys_coll_set: "fst ` set (coll_set k v fs) = insert k (fst ` set fs)"
proof (induction fs)
  case Nil
  then show ?case by simp
next
  case (Cons kv fs)
  obtain k' v' where kv: "kv = (k', v')" by (cases kv)
  show ?case
  proof (cases "k = k'")
    case True
    then show ?thesis using kv by auto
  next
    case False
    then show ?thesis using kv Cons.IH by (simp add: insert_commute)
  qed
qed

lemma fetchSingleSpace_options_cong:
  assumes "member_js o1 ''skipCacheCheck'' = member_js o2 ''skipCacheCheck''"
    and "member_js o1 ''cacheAfterFetching'' = member_js o2 ''cacheAfterFetching''"
  shows "fetchSingleSpace api m i o1 = fetchSingleSpace api m i o2"
  unfolding fetchSingleSpace_def assms by (rule refl)

lemma fetch_space_field:
  assumes "''space'' \<in> fst ` set fs"
  shows "SpaceManager_fetch canonical api m (JObj fs) =
           (case BaseManager_resolveId canonical space_id_of
                   (case map_of fs ''space'' of None \<Rightarrow> JUndefined | Some r \<Rightarrow> r) of
              None \<Rightarrow> (Inl SPACE_RESOLVE_ID, m)
            | Some spaceId \<Rightarrow>
                if spaceId = [] then (Inl SPACE_RESOLVE_ID, m)
                else (case fetchSingleSpace api m spaceId (JObj fs) of
                        (Inl e, m') \<Rightarrow> (Inl e, m')
                      | (Inr s, m') \<Rightarrow> (Inr (Single s), m')))"
  using assms by (simp add: SpaceManager_fetch_def)

text \<open>
  C10. When the options object has a \<^verbatim>\<open>space\<close> field, the single-fetch path is taken:
  the call is the resolution of that field followed by \<^verbatim>\<open>#fetchSingleSpace\<close>. The
  \<^verbatim>\<open>spaces\<close> field is ignored: setting it to any value \<open>v\<close>, an array or not, changes
  neither the result nor the manager's state.
\<close>

theorem space_takes_precedence:
  assumes "''space'' \<in> fst ` set fs"
  shows "SpaceManager_fetch canonical api m (JObj (coll_set ''spaces'' v fs))
           = SpaceManager_fetch canonical api m (JObj fs)
       \<and> SpaceManager_fetch canonical api m (JObj fs) =
           (case BaseManager_resolveId canonical space_id_of
                   (case map_of fs ''space'' of None \<Rightarrow> JUndefined | Some r \<Rightarrow> r) of
              None \<Rightarrow> (Inl SPACE_RESOLVE_ID, m)
            | Some spaceId \<Rightarrow>
                if spaceId = [] then (Inl SPACE_RESOLVE_ID, m)
                else (case fetchSingleSpace api m spaceId (JObj fs) of
                        (Inl e, m') \<Rightarrow> (Inl e, m')
                      | (Inr s, m') \<Rightarrow> (Inr (Single s), m')))"
proof
  have k: "''space'' \<in> fst ` set (coll_set ''spaces'' v fs)"
    using assms by (simp add: keys_coll_set)
  have c: "fetchSingleSpace api m i (JObj (coll_set ''spaces'' v fs))
             = fetchSingleSpace api m i (JObj fs)" for i
    by (rule fetchSingleSpace_options_cong) (simp_all add: map_of_coll_set)
  show "SpaceManager_fetch canonical api m (JObj (coll_set ''spaces'' v fs))
           = SpaceManager_fetch canonical api m (JObj fs)"
    by (simp add: fetch_space_field[OF k] fetch_space_field[OF assms] map_of_coll_set c
        split: option.split)
  show "SpaceManager_fetch canonical api m (JObj fs) =
           (case BaseManager_resolveId canonical space_id_of
                   (case map_of fs ''space'' of None \<Rightarrow> JUndefined | Some r \<Rightarrow> r) of
              None \<Rightarrow> (Inl SPACE_RESOLVE_ID, m)
            | Some spaceId \<Rightarrow>
                if spaceId = [] then (Inl SPACE_RESOLVE_ID, m)
                else (case fetchSingleSpace api m spaceId (JObj fs) of
                        (Inl e, m') \<Rightarrow> (Inl e, m')
                      | (Inr s, m') \<Rightarrow> (Inr (Single s), m')))"
    by (rule fetch_space_field[OF assms])
qed

theorem space_takes_precedence_witness:
  "SpaceManager_fetch numeric api1 manager1 (JObj [(''space'', JStr ''1''), (''spaces'', JNum 5)])
     = (Inr (Single space1), manager1)"
proof -
  have "SpaceManager_fetch numeric api1 manager1
          (JObj (coll_set ''spaces'' (JNum 5) [(''space'', JStr ''1''), (''spaces'', JArr [])]))
        = SpaceManager_fetch numeric api1 manager1
          (JObj [(''space'', JStr ''1''), (''spaces'', JArr [])])"
    using space_takes_precedence
      [of "[(''space'', JStr ''1''), (''spaces'', JArr [])]" numeric api1 manager1 "JNum 5"]
    by simp
  moreover have "SpaceManager_fetch numeric api1 manager1
          (JObj [(''space'', JStr ''1''), (''spaces'', JArr [])]) = (Inr (Single space1), manager1)"
    by (simp add: SpaceManager_fetch_def fetchSingleSpace_def BaseManager_resolveId_def
        numeric_def manager1_def coll_get_def)
  ultimately show ?thesis by simp
qed

lemma fetchSingleSpace_miss:
  assumes "member_js options ''skipCacheCheck'' = Inr skip"
    and "member_js options ''cacheAfterFetching'' = Inr caf"
    and "truthy skip \<or> coll_get (cache m) spaceId = None"
    and "spaces_id_get api spaceId = Inr resp" and "r_data resp = Some raw"
  shows "fst (fetchSingleSpace api m spaceId options) = Inr (new_Space raw (r_includes resp))"
  using assms by (auto simp: fetchSingleSpace_def add_entry_def Let_def)

lemma fetchByCreatorIds_zero:
  assumes "typeof options = ''object''" and "member_js options ''users'' = Inr (JArr users)"
    and "resolve_each (BaseManager_resolveId canonical user_id_of) USER_RESOLVE_ID users
           = Inr userIds"
    and "spaces_by_creator_ids_get api userIds = Inr resp"
    and "r_meta resp = Some mt" and "result_count mt = 0"
  shows "fetchByCreatorIds canonical api m options
           = (Inr [], m\<lparr>calls := calls m @ [GetSpacesByCreatorIds userIds]\<rparr>)"
  using assms by (simp add: fetchByCreatorIds_def)

text \<open>
  C2, as the claim states it, fails: the fetches by id never look at \<^verbatim>\<open>meta\<close>. With a
  response that signals zero results and carries no data, \<^verbatim>\<open>fetch\<close> of a list of spaces
  and \<^verbatim>\<open>fetch\<close> of one space both end in the runtime's TypeError, after the transport
  call; when such a response carries data, the data is read and the collection is not
  empty.
\<close>

theorem zero_result_counterexample:
  "spaces_get api_zero [''7'']
      = Inr \<lparr>r_data = None, r_includes = None, r_meta = Some \<lparr>result_count = 0\<rparr>\<rparr>
   \<and> SpaceManager_fetch numeric api_zero manager1 (JObj [(''spaces'', JArr [JStr ''7''])])
      = (Inl TypeError, manager1\<lparr>calls := [GetSpaces [''7'']]\<rparr>)
   \<and> spaces_id_get api_zero ''7''
      = Inr \<lparr>r_data = None, r_includes = None, r_meta = Some \<lparr>result_count = 0\<rparr>\<rparr>
   \<and> SpaceManager_fetch numeric api_zero manager1 (JObj [(''space'', JStr ''7'')])
      = (Inl TypeError, manager1\<lparr>calls := [GetSpace ''7'']\<rparr>)
   \<and> spaces_get api_zero_data [''7'']
      = Inr \<lparr>r_data = Some [\<lparr>rid = ''9'', rbody = ''stale''\<rparr>], r_includes = None,
             r_meta = Some \<lparr>result_count = 0\<rparr>\<rparr>
   \<and> fst (SpaceManager_fetch numeric api_zero_data manager1
             (JObj [(''spaces'', JArr [JStr ''7''])]))
      = Inr (Multi [(''9'', new_Space \<lparr>rid = ''9'', rbody = ''stale''\<rparr> None)])"
  by (simp add: api_zero_def api_zero_data_def manager1_def SpaceManager_fetch_def
      fetchMultipleSpaces_def fetchSingleSpace_def BaseManager_resolveId_def numeric_def
      coll_get_def add_entry_def new_Space_def Let_def)

text \<open>
  C2, amended. When the response of \<^verbatim>\<open>fetchByCreatorIds\<close> has
  \<^verbatim>\<open>meta.result_count === 0\<close>, the empty collection is returned: no error, whatever the
  data and includes of the response are (they are never read), and the cache is unchanged;
  the one transport call is logged. The single fetch by id does not look at \<^verbatim>\<open>meta\<close> and
  has no \<^verbatim>\<open>null\<close> result: whenever the response carries data, it returns the space built
  from it.
\<close>

theorem zero_result_by_creator_ids:
  "(typeof options = ''object'' \<and> member_js options ''users'' = Inr (JArr users) \<and>
    resolve_each (BaseManager_resolveId canonical user_id_of) USER_RESOLVE_ID users
      = Inr userIds \<and>
    spaces_by_creator_ids_get api userIds = Inr resp \<and>
    r_meta resp = Some mt \<and> result_count mt = 0 \<longrightarrow>
      fetchByCreatorIds canonical api m options
        = (Inr [], m\<lparr>calls := calls m @ [GetSpacesByCreatorIds userIds]\<rparr>))
   \<and> (member_js options ''skipCacheCheck'' = Inr skip \<and>
       member_js options ''cacheAfterFetching'' = Inr caf \<and>
       (truthy skip \<or> coll_get (cache m) spaceId = None) \<and>
       spaces_id_get api spaceId = Inr respS \<and> r_data respS = Some raw \<longrightarrow>
      fst (fetchSingleSpace api m spaceId options) = Inr (new_Space raw (r_includes respS)))"
  using fetchByCreatorIds_zero fetchSingleSpace_miss by blast

theorem zero_result_by_creator_ids_witness:
  "fetchByCreatorIds numeric api_zero_data manager1 (JObj [(''users'', JArr [JStr ''7''])])
     = (Inr [], manager1\<lparr>calls := [GetSpacesByCreatorIds [''7'']]\<rparr>)
   \<and> fst (fetchSingleSpace api_zero_data manager1 ''7'' (JObj [(''space'', JStr ''7'')]))
     = Inr (new_Space \<lparr>rid = ''7'', rbody = ''stale''\<rparr> None)"
proof -
  have a: "fetchByCreatorIds numeric api_zero_data manager1
             (JObj [(''users'', JArr [JStr ''7''])])
           = (Inr [], manager1\<lparr>calls := [GetSpacesByCreatorIds [''7'']]\<rparr>)"
    using zero_result_by_creator_ids
      [where options = "JObj [(''users'', JArr [JStr ''7''])]" and users = "[JStr ''7'']"
         and canonical = numeric and userIds = "[''7'']" and api = api_zero_data
         and resp = "\<lparr>r_data = Some [\<lparr>rid = ''9'', rbody = ''stale''\<rparr>], r_includes = None,
                       r_meta = Some \<lparr>result_count = 0\<rparr>\<rparr>"
         and mt = "\<lparr>result_count = 0\<rparr>" and m = manager1]
    by (simp add: BaseManager_resolveId_def numeric_def api_zero_data_def manager1_def)
  have b: "fst (fetchSingleSpace api_zero_data manager1 ''7'' (JObj [(''space'', JStr ''7'')]))
             = Inr (new_Space \<lparr>rid = ''7'', rbody = ''stale''\<rparr> None)"
    using zero_result_by_creator_ids
      [where options = "JObj [(''space'', JStr ''7'')]" and skip = JUndefined
         and caf = JUndefined and m = manager1 and spaceId = "''7''" and api = api_zero_data
         and respS = "\<lparr>r_data = Some \<lparr>rid = ''7'', rbody = ''stale''\<rparr>, r_includes = None,
                        r_meta = Some \<lparr>result_count = 0\<rparr>\<rparr>"
         and raw = "\<lparr>rid = ''7'', rbody = ''stale''\<rparr>"]
    by (simp add: api_zero_data_def manager1_def coll_get_def)
  show ?thesis using a b by simp
qed

section \<open>Properties of the user manager\<close>

lemma coll_find_None: "coll_find p c = None \<longleftrightarrow> (\<forall>u \<in> snd ` set c. \<not> p u)"
  by (simp add: coll_find_def find_None_iff)

lemma coll_find_Some: "coll_find p c = Some u \<Longrightarrow> u \<in> snd ` set c \<and> p u"
  by (auto simp: coll_find_def find_Some_iff)

lemma resolveID_by_username:
  assumes "\<not> canonical s"
  shows "UserManager_resolveID canonical m (JStr s) =
           (case coll_find (\<lambda>u. username u = s) (ucache m) of
              None \<Rightarrow> JUndefined
            | Some u \<Rightarrow> JStr (uid u))"
  using assms by (simp add: UserManager_resolveID_def BaseManager_resolveId_def)

lemma resolve_by_username:
  assumes "\<not> canonical s"
  shows "UserManager_resolve canonical m (JStr s) =
           (case coll_find (\<lambda>u. username u = s) (ucache m) of
              None \<Rightarrow> JUndefined
            | Some u \<Rightarrow> JUser u)"
  using assms
  by (simp add: UserManager_resolve_def BaseManager_resolve_def BaseManager_resolveId_def)

text \<open>
  C4. For a string \<open>s\<close> that is not a canonical id, whatever the cache holds:
  when no cached user has the username \<open>s\<close>, \<^verbatim>\<open>resolveID\<close> and \<^verbatim>\<open>resolve\<close> return
  no value (JavaScript's \<^verbatim>\<open>undefined\<close>, the absent value that the language-neutral spec
  calls null); when some cached user has it, they return the id of such a user and that
  user, the first in the cache's insertion order. Neither can raise: they have no error
  result.
\<close>

theorem username_resolution:
  assumes "\<not> canonical s"
  shows "((\<forall>u \<in> snd ` set (ucache m). username u \<noteq> s) \<longrightarrow>
            UserManager_resolveID canonical m (JStr s) = JUndefined \<and>
            UserManager_resolve canonical m (JStr s) = JUndefined)
       \<and> ((\<exists>u \<in> snd ` set (ucache m). username u = s) \<longrightarrow>
            (\<exists>u \<in> snd ` set (ucache m). username u = s \<and>
               coll_find (\<lambda>u. username u = s) (ucache m) = Some u \<and>
               UserManager_resolveID canonical m (JStr s) = JStr (uid u) \<and>
               UserManager_resolve canonical m (JStr s) = JUser u))"
proof (intro conjI impI)
  assume "\<forall>u \<in> snd ` set (ucache m). username u \<noteq> s"
  then have "coll_find (\<lambda>u. username u = s) (ucache m) = None"
    by (simp add: coll_find_None)
  then show "UserManager_resolveID canonical m (JStr s) = JUndefined"
    and "UserManager_resolve canonical m (JStr s) = JUndefined"
    using assms by (simp_all add: resolveID_by_username resolve_by_username)
next
  assume "\<exists>u \<in> snd ` set (ucache m). username u = s"
  then have "coll_find (\<lambda>u. username u = s) (ucache m) \<noteq> None"
    by (simp add: coll_find_None)
  then obtain u where u: "coll_find (\<lambda>u. username u = s) (ucache m) = Some u" by auto
  then have "u \<in> snd ` set (ucache m)" and "username u = s"
    using coll_find_Some[OF u] by simp_all
  moreover have "UserManager_resolveID canonical m (JStr s) = JStr (uid u)"
    and "UserManager_resolve canonical m (JStr s) = JUser u"
    using assms u by (simp_all add: resolveID_by_username resolve_by_username)
  ultimately show "\<exists>u \<in> snd ` set (ucache m). username u = s \<and>
               coll_find (\<lambda>u. username u = s) (ucache m) = Some u \<and>
               UserManager_resolveID canonical m (JStr s) = JStr (uid u) \<and>
               UserManager_resolve canonical m (JStr s) = JUser u"
    using u by blast
qed

theorem username_resolution_witness:
  "UserManager_resolveID numeric umanager1 (JStr ''carol'') = JUndefined
   \<and> UserManager_resolve numeric umanager1 (JStr ''carol'') = JUndefined
   \<and> UserManager_resolveID numeric umanager1 (JStr ''bob'') = JStr ''34''
   \<and> UserManager_resolve numeric umanager1 (JStr ''bob'') = JUser bob"
proof -
  have a: "UserManager_resolveID numeric umanager1 (JStr ''carol'') = JUndefined
           \<and> UserManager_resolve numeric umanager1 (JStr ''carol'') = JUndefined"
    using username_resolution[of numeric "''carol''" umanager1]
    by (simp add: numeric_def umanager1_def alice_def bob_def)
  have "\<exists>u \<in> snd ` set (ucache umanager1). username u = ''bob'' \<and>
               coll_find (\<lambda>u. username u = ''bob'') (ucache umanager1) = Some u \<and>
               UserManager_resolveID numeric umanager1 (JStr ''bob'') = JStr (uid u) \<and>
               UserManager_resolve numeric umanager1 (JStr ''bob'') = JUser u"
    using username_resolution[of numeric "''bob''" umanager1]
    by (simp add: numeric_def umanager1_def alice_def bob_def)
  then have b: "UserManager_resolveID numeric umanager1 (JStr ''bob'') = JStr ''34''
           \<and> UserManager_resolve numeric umanager1 (JStr ''bob'') = JUser bob"
    by (auto simp: umanager1_def alice_def bob_def coll_find_def)
  show ?thesis using a b by simp
qed

lemma find_unique_set:
  assumes "set xs = set ys"
    and "\<forall>x\<in>set xs. \<forall>y\<in>set xs. p x \<longrightarrow> p y \<longrightarrow> x = y"
  shows "find p xs = find p ys"
proof (cases "find p xs")
  case None
  then have "\<forall>x\<in>set ys. \<not> p x" using assms(1) by (simp add: find_None_iff)
  then have "find p ys = None" by (simp add: find_None_iff)
  with None show ?thesis by simp
next
  case (Some x)
  then have x: "x \<in> set xs" "p x" by (auto simp: find_Some_iff)
  then have "find p ys \<noteq> None" using assms(1) by (auto simp: find_None_iff)
  then obtain y where y: "find p ys = Some y" by auto
  then have "y \<in> set ys" "p y" by (auto simp: find_Some_iff)
  then have "y = x" using x assms by auto
  with Some y show ?thesis by simp
qed

lemma coll_find_same_entries:
  assumes "set c1 = set c2"
    and "\<forall>u\<in>snd ` set c1. \<forall>v\<in>snd ` set c1. p u \<longrightarrow> p v \<longrightarrow> u = v"
  shows "coll_find p c1 = coll_find p c2"
proof -
  have "set (map snd c1) = set (map snd c2)" using assms(1) by simp
  moreover have "\<forall>x\<in>set (map snd c1). \<forall>y\<in>set (map snd c1). p x \<longrightarrow> p y \<longrightarrow> x = y"
    using assms(2) by simp
  ultimately show ?thesis unfolding coll_find_def by (rule find_unique_set)
qed

lemma coll_get_same_entries:
  assumes "distinct (map fst c1)" and "distinct (map fst c2)" and "set c1 = set c2"
  shows "coll_get c1 = coll_get c2"
proof -
  have "map_of c1 = map_of c2" using assms by (simp add: map_of_inject_set)
  then show ?thesis by (simp add: coll_get_def fun_eq_iff)
qed

text \<open>
  C7, as the claim states it, fails. The cache is an insertion-ordered collection and
  the username scan returns the first match, so the same cache contents do not fix the
  result: the two caches below hold the same two entries, under distinct ids, and the
  username alice resolves to user 12 in one and to user 56 in the other.
\<close>

theorem resolution_order_counterexample:
  "set (ucache umanager_old) = set (ucache umanager_new)
   \<and> distinct (map fst (ucache umanager_old)) \<and> distinct (map fst (ucache umanager_new))
   \<and> UserManager_resolveID numeric umanager_old (JStr ''alice'') = JStr ''12''
   \<and> UserManager_resolveID numeric umanager_new (JStr ''alice'') = JStr ''56''
   \<and> UserManager_resolve numeric umanager_old (JStr ''alice'') = JUser alice
   \<and> UserManager_resolve numeric umanager_new (JStr ''alice'') = JUser namesake
   \<and> alice \<noteq> namesake"
proof -
  have "set (ucache umanager_old) = set (ucache umanager_new)"
    by (auto simp: umanager_old_def umanager_new_def)
  moreover have "distinct (map fst (ucache umanager_old)) \<and> distinct (map fst (ucache umanager_new))"
    by (simp add: umanager_old_def umanager_new_def)
  moreover have "UserManager_resolveID numeric umanager_old (JStr ''alice'') = JStr ''12''
   \<and> UserManager_resolveID numeric umanager_new (JStr ''alice'') = JStr ''56''
   \<and> UserManager_resolve numeric umanager_old (JStr ''alice'') = JUser alice
   \<and> UserManager_resolve numeric umanager_new (JStr ''alice'') = JUser namesake"
    by (simp add: UserManager_resolveID_def UserManager_resolve_def BaseManager_resolveId_def
        BaseManager_resolve_def numeric_def umanager_old_def umanager_new_def alice_def
        namesake_def coll_find_def)
  moreover have "alice \<noteq> namesake" by (simp add: alice_def namesake_def)
  ultimately show ?thesis by simp
qed

text \<open>
  C7, amended. When no two cached users share a username, \<^verbatim>\<open>resolve\<close> and
  \<^verbatim>\<open>resolveID\<close> are functions of the cache contents and the input alone: two caches
  that hold the same entries (each a keyed collection, its ids distinct) give the same
  results for every input, whatever their insertion orders.
\<close>

theorem resolution_order_independent:
  assumes "distinct (map fst (ucache m1))" and "distinct (map fst (ucache m2))"
    and "set (ucache m1) = set (ucache m2)"
    and "inj_on username (snd ` set (ucache m1))"
  shows "UserManager_resolve canonical m1 r = UserManager_resolve canonical m2 r
       \<and> UserManager_resolveID canonical m1 r = UserManager_resolveID canonical m2 r"
proof -
  have f: "coll_find (\<lambda>u. JStr (username u) = r) (ucache m1)
             = coll_find (\<lambda>u. JStr (username u) = r) (ucache m2)"
  proof (rule coll_find_same_entries[OF assms(3)], intro ballI impI)
    fix u v
    assume "u \<in> snd ` set (ucache m1)" "v \<in> snd ` set (ucache m1)"
      and "JStr (username u) = r" "JStr (username v) = r"
    then show "u = v" using assms(4) by (auto dest: inj_onD)
  qed
  have g: "coll_get (ucache m1) = coll_get (ucache m2)"
    by (rule coll_get_same_entries[OF assms(1-3)])
  have b: "BaseManager_resolve canonical user_of (ucache m1) x
             = BaseManager_resolve canonical user_of (ucache m2) x" for x
    unfolding BaseManager_resolve_def g by simp
  show ?thesis
    unfolding UserManager_resolve_def UserManager_resolveID_def f b by simp
qed

theorem resolution_order_independent_witness:
  "UserManager_resolveID numeric umanager1 (JStr ''bob'')
     = UserManager_resolveID numeric umanager_rev (JStr ''bob'')
   \<and> UserManager_resolve numeric umanager1 (JStr ''bob'')
     = UserManager_resolve numeric umanager_rev (JStr ''bob'')
   \<and> UserManager_resolveID numeric umanager_rev (JStr ''bob'') = JStr ''34''
   \<and> UserManager_resolve numeric umanager_rev (JStr ''bob'') = JUser bob"
proof -
  have d1: "distinct (map fst (ucache umanager1))" by (simp add: umanager1_def)
  have d2: "distinct (map fst (ucache umanager_rev))" by (simp add: umanager_rev_def)
  have s: "set (ucache umanager1) = set (ucache umanager_rev)"
    by (auto simp: umanager1_def umanager_rev_def)
  have i: "inj_on username (snd ` set (ucache umanager1))"
    by (simp add: umanager1_def alice_def bob_def)
  have v: "UserManager_resolveID numeric umanager_rev (JStr ''bob'') = JStr ''34''
         \<and> UserManager_resolve numeric umanager_rev (JStr ''bob'') = JUser bob"
    by (simp add: UserManager_resolveID_def UserManager_resolve_def BaseManager_resolveId_def
        BaseManager_resolve_def numeric_def umanager_rev_def alice_def bob_def coll_find_def)
  show ?thesis
    using resolution_order_independent[OF d1 d2 s i, of numeric "JStr ''bob''"] v by simp
qed

lemma fill_buckets_eq:
  "fill_buckets res xs ids names =
     (ids @ map res (filter (\<lambda>x. truthy (res x)) xs),
      names @ filter (\<lambda>x. \<not> truthy (res x) \<and> typeof x = ''string'') xs)"
  by (induction xs arbitrary: ids names) (simp_all add: Let_def)

lemma ucalls_fetchMany:
  "ucalls (snd (fetchMany rest m q qt)) =
     ucalls m @ [case qt of ID \<Rightarrow> FetchUsersByIds q | USERNAME \<Rightarrow> FetchUsersByUsernames q]"
  by (cases qt) (simp_all add: fetchMany_def)

lemma fst_fetchMany:
  "fst (fetchMany rest m q qt) =
     (case qt of ID \<Rightarrow> rest_fetchUsersByIds rest q | USERNAME \<Rightarrow> rest_fetchUsersByUsernames rest q)"
  by (cases qt) (simp_all add: fetchMany_def)

lemma fetch_buckets_calls:
  "ucalls (snd (fetch_buckets rest m ids names)) =
     ucalls m @ (if ids = [] then [] else [FetchUsersByIds ids])
       @ (if names = [] \<or> (ids \<noteq> [] \<and> isl (rest_fetchUsersByIds rest ids)) then []
          else [FetchUsersByUsernames names])"
proof (cases "ids = []")
  case True
  then show ?thesis
    using ucalls_fetchMany[of rest m names USERNAME]
    by (cases "fetchMany rest m names USERNAME")
       (auto simp: fetch_buckets_def split: sum.splits)
next
  case False
  obtain r1 m1 where f1: "fetchMany rest m ids ID = (r1, m1)" by (cases "fetchMany rest m ids ID")
  have c1: "ucalls m1 = ucalls m @ [FetchUsersByIds ids]"
    using ucalls_fetchMany[of rest m ids ID] f1 by simp
  have r1: "r1 = rest_fetchUsersByIds rest ids"
    using fst_fetchMany[of rest m ids ID] f1 by simp
  show ?thesis
  proof (cases r1)
    case (Inl e)
    then show ?thesis using False f1 c1 r1 by (simp add: fetch_buckets_def)
  next
    case (Inr resp)
    obtain r2 m2 where f2: "fetchMany rest m1 names USERNAME = (r2, m2)"
      by (cases "fetchMany rest m1 names USERNAME")
    have c2: "ucalls m2 = ucalls m1 @ [FetchUsersByUsernames names]"
      using ucalls_fetchMany[of rest m1 names USERNAME] f2 by simp
    from Inr r1 have ni: "\<not> isl (rest_fetchUsersByIds rest ids)" by simp
    show ?thesis
      using False f1 c1 Inr f2 c2 ni
      by (cases r2) (simp_all add: fetch_buckets_def)
  qed
qed

lemma resolveID_object: "UserManager_resolveID canonical m (JObj fs) = JNull"
  by (simp add: UserManager_resolveID_def BaseManager_resolveId_def)

lemma fetch_many_path:
  assumes "map_of fs ''user'' = Some (JArr users)"
  shows "UserManager_fetch canonical rest m (JObj fs) =
           (case fill_buckets (UserManager_resolveID canonical m) users [] [] of
              (userIdsArray, userNamesArray) \<Rightarrow>
                (case fetch_buckets rest m userIdsArray userNamesArray of
                   (Inl e, m') \<Rightarrow> (Inl e, m')
                 | (Inr usersResponse, m') \<Rightarrow>
                     (Inr (userBuilder_many (cleanFetchManyUsersResponse usersResponse)), m')))"
  using assms by (simp add: UserManager_fetch_def resolveID_object)

text \<open>
  C5. A fetch of a list of users. The inputs are split into the bucket of resolved ids
  (of the inputs that resolve) and the bucket of usernames (the strings that do not
  resolve), each in input order. The transport calls of the fetch are at most one batched
  call per non-empty bucket, carrying the whole bucket: first the ids, then the usernames
  (not issued when the call for the ids was rejected). So there are at most two calls,
  however many inputs there are.
\<close>

theorem batch_fetch_two_buckets:
  assumes "map_of fs ''user'' = Some (JArr users)"
  shows "let res = UserManager_resolveID canonical m;
             ids = map res (filter (\<lambda>x. truthy (res x)) users);
             names = filter (\<lambda>x. \<not> truthy (res x) \<and> typeof x = ''string'') users;
             cs = (if ids = [] then [] else [FetchUsersByIds ids])
                  @ (if names = [] \<or> (ids \<noteq> [] \<and> isl (rest_fetchUsersByIds rest ids)) then []
                     else [FetchUsersByUsernames names])
         in fill_buckets res users [] [] = (ids, names)
            \<and> ucalls (snd (UserManager_fetch canonical rest m (JObj fs))) = ucalls m @ cs
            \<and> length cs \<le> 2"
proof -
  define res where "res = UserManager_resolveID canonical m"
  define ids where "ids = map res (filter (\<lambda>x. truthy (res x)) users)"
  define names where "names = filter (\<lambda>x. \<not> truthy (res x) \<and> typeof x = ''string'') users"
  have fb: "fill_buckets res users [] [] = (ids, names)"
    by (simp add: fill_buckets_eq ids_def names_def)
  have "ucalls (snd (UserManager_fetch canonical rest m (JObj fs)))
          = ucalls (snd (fetch_buckets rest m ids names))"
    using fb by (simp add: fetch_many_path[OF assms] res_def split: prod.splits sum.splits)
  then have "ucalls (snd (UserManager_fetch canonical rest m (JObj fs))) =
     ucalls m @ (if ids = [] then [] else [FetchUsersByIds ids])
       @ (if names = [] \<or> (ids \<noteq> [] \<and> isl (rest_fetchUsersByIds rest ids)) then []
          else [FetchUsersByUsernames names])"
    by (simp only: fetch_buckets_calls)
  with fb show ?thesis
    unfolding Let_def res_def [symmetric] ids_def [symmetric] names_def [symmetric]
    by simp
qed

theorem batch_fetch_two_buckets_witness:
  "ucalls (snd (UserManager_fetch numeric rest1 umanager1
      (JObj [(''user'', JArr [JStr ''99'', JStr ''carol'', JNum 42, JStr ''bob'', JStr ''dave''])])))
    = [FetchUsersByIds [JStr ''99'', JStr ''34''], FetchUsersByUsernames [JStr ''carol'', JStr ''dave'']]"
  using batch_fetch_two_buckets
    [of "[(''user'', JArr [JStr ''99'', JStr ''carol'', JNum 42, JStr ''bob'', JStr ''dave''])]"
        "[JStr ''99'', JStr ''carol'', JNum 42, JStr ''bob'', JStr ''dave'']" numeric umanager1 rest1]
  by (simp add: Let_def UserManager_resolveID_def BaseManager_resolveId_def numeric_def
      umanager1_def alice_def bob_def coll_find_def rest1_def)

text \<open>
  C9. In a fetch of a list of users, an element that neither resolves to an id nor is a
  string is dropped: it enters neither bucket, and the fetch, its result, its errors and
  its transport calls, is the fetch of the list without the element. The collection
  returned can therefore hold fewer users than there were inputs.
\<close>

theorem unresolvable_nonstring_dropped:
  assumes "map_of fs ''user'' = Some (JArr (xs @ x # ys))"
    and "map_of fs' ''user'' = Some (JArr (xs @ ys))"
    and "\<not> truthy (UserManager_resolveID canonical m x)" and "typeof x \<noteq> ''string''"
  shows "fill_buckets (UserManager_resolveID canonical m) (xs @ x # ys) [] []
           = fill_buckets (UserManager_resolveID canonical m) (xs @ ys) [] []
       \<and> UserManager_fetch canonical rest m (JObj fs) = UserManager_fetch canonical rest m (JObj fs')"
proof -
  have fb: "fill_buckets (UserManager_resolveID canonical m) (xs @ x # ys) [] []
           = fill_buckets (UserManager_resolveID canonical m) (xs @ ys) [] []"
    using assms(3,4) by (simp add: fill_buckets_eq)
  then show ?thesis
    by (simp add: fetch_many_path[OF assms(1)] fetch_many_path[OF assms(2)])
qed

theorem unresolvable_nonstring_dropped_witness:
  "UserManager_fetch numeric rest_echo umanager1 (JObj [(''user'', JArr [JStr ''99'', JNum 42])])
     = (Inr (RUsers [(''99'', \<lparr>uid = ''99'', username = ''99''\<rparr>)]),
        umanager1\<lparr>ucalls := [FetchUsersByIds [JStr ''99'']]\<rparr>)"
proof -
  have "UserManager_fetch numeric rest_echo umanager1 (JObj [(''user'', JArr [JStr ''99'', JNum 42])])
          = UserManager_fetch numeric rest_echo umanager1 (JObj [(''user'', JArr [JStr ''99''])])"
    using unresolvable_nonstring_dropped
      [where fs = "[(''user'', JArr [JStr ''99'', JNum 42])]" and xs = "[JStr ''99'']"
         and x = "JNum 42" and ys = "[]" and fs' = "[(''user'', JArr [JStr ''99''])]"
         and canonical = numeric and m = umanager1 and rest = rest_echo]
    by (simp add: UserManager_resolveID_def BaseManager_resolveId_def)
  also have "\<dots> = (Inr (RUsers [(''99'', \<lparr>uid = ''99'', username = ''99''\<rparr>)]),
        umanager1\<lparr>ucalls := [FetchUsersByIds [JStr ''99'']]\<rparr>)"
    by (simp add: UserManager_fetch_def UserManager_resolveID_def BaseManager_resolveId_def
        numeric_def fetch_buckets_def fetchMany_def rest_echo_def umanager1_def
        cleanFetchManyUsersResponse_def userBuilder_many_def new_User_def Let_def)
  finally show ?thesis .
qed

text \<open>A list in which no element resolves or is a string: no call, an empty collection.\<close>

lemma fetch_empty_batch:
  assumes "map_of fs ''user'' = Some (JArr users)"
    and "\<forall>x\<in>set users. \<not> truthy (UserManager_resolveID canonical m x) \<and> typeof x \<noteq> ''string''"
  shows "UserManager_fetch canonical rest m (JObj fs) = (Inr (RUsers []), m)"
proof -
  have "filter (\<lambda>x. truthy (UserManager_resolveID canonical m x)) users = []"
    and "filter (\<lambda>x. \<not> truthy (UserManager_resolveID canonical m x) \<and> typeof x = ''string'') users = []"
    using assms(2) by (simp_all add: filter_empty_conv)
  then show ?thesis
    by (simp add: fetch_many_path[OF assms(1)] fill_buckets_eq fetch_buckets_def
        cleanFetchManyUsersResponse_def userBuilder_many_def)
qed

lemma ucalls_fetch_one:
  "ucalls (snd (fetch_one rest m q qt)) =
     ucalls m @ [case qt of ID \<Rightarrow> FetchUserById q | USERNAME \<Rightarrow> FetchUserByUsername q]"
  by (cases qt) (auto simp: fetch_one_def fetchSingle_def split: sum.splits)

text \<open>
  The single fetch of a resolvable given directly: the id endpoint receives the resolved
  id, and a string that does not resolve goes to the username endpoint.
\<close>

lemma fetch_direct_calls:
  "truthy (UserManager_resolveID canonical m options) \<Longrightarrow>
     ucalls (snd (UserManager_fetch canonical rest m options))
       = ucalls m @ [FetchUserById (UserManager_resolveID canonical m options)]"
  "\<not> truthy (UserManager_resolveID canonical m options) \<Longrightarrow> typeof options = ''string'' \<Longrightarrow>
     ucalls (snd (UserManager_fetch canonical rest m options))
       = ucalls m @ [FetchUserByUsername options]"
  by (simp_all add: UserManager_fetch_def Let_def ucalls_fetch_one)

text \<open>
  The single fetch of an options object: the id endpoint receives \<^verbatim>\<open>options.user\<close>
  itself, not the id it resolved to.
\<close>

lemma fetch_options_user_path:
  assumes "map_of fs ''user'' = Some optUser" and "\<not> isArray optUser" and "truthy optUser"
  shows "UserManager_fetch canonical rest m (JObj fs) =
           (if truthy (UserManager_resolveID canonical m optUser) then fetch_one rest m optUser ID
            else if typeof optUser = ''string'' then fetch_one rest m optUser USERNAME
            else (Inr RUndefined, m))"
  using assms by (cases optUser) (simp_all add: UserManager_fetch_def resolveID_object Let_def)

lemma fetch_options_user_calls:
  assumes "map_of fs ''user'' = Some optUser" and "\<not> isArray optUser" and "truthy optUser"
  shows "truthy (UserManager_resolveID canonical m optUser) \<Longrightarrow>
     ucalls (snd (UserManager_fetch canonical rest m (JObj fs)))
       = ucalls m @ [FetchUserById optUser]"
    and "\<not> truthy (UserManager_resolveID canonical m optUser) \<Longrightarrow> typeof optUser = ''string'' \<Longrightarrow>
     ucalls (snd (UserManager_fetch canonical rest m (JObj fs)))
       = ucalls m @ [FetchUserByUsername optUser]"
  by (simp_all add: fetch_options_user_path[OF assms] ucalls_fetch_one)

text \<open>
  C6. The code at the inputs where it departs from the claim. With the user alice (id 12)
  cached: \<^verbatim>\<open>fetch({user: alice})\<close> calls the id endpoint with the user object and
  \<^verbatim>\<open>fetch({user: 'alice'})\<close> calls it with the username, where \<^verbatim>\<open>fetch(alice)\<close> and
  \<^verbatim>\<open>fetch('alice')\<close> call it with the resolved id 12.
\<close>

theorem options_user_query_unresolved:
  "ucalls (snd (UserManager_fetch numeric rest1 umanager1 (JObj [(''user'', JUser alice)])))
     = [FetchUserById (JUser alice)]
   \<and> ucalls (snd (UserManager_fetch numeric rest1 umanager1 (JUser alice)))
     = [FetchUserById (JStr ''12'')]
   \<and> ucalls (snd (UserManager_fetch numeric rest1 umanager1 (JObj [(''user'', JStr ''alice'')])))
     = [FetchUserById (JStr ''alice'')]
   \<and> ucalls (snd (UserManager_fetch numeric rest1 umanager1 (JStr ''alice'')))
     = [FetchUserById (JStr ''12'')]"
  by (simp add: UserManager_fetch_def UserManager_resolveID_def BaseManager_resolveId_def
      numeric_def fetch_one_def fetchSingle_def rest1_def umanager1_def alice_def bob_def
      coll_find_def Let_def)

end
